theory Spec2Isabelle
  imports Complex_Main
begin

section \<open>Data model (models.py)\<close>

text \<open>
  Each ORM class is a record holding the columns that the handlers read or write, and the
  database is a record of tables; a table is the list of its rows in storage order.
  The column \<open>id\<close> of every table is renamed (\<open>uid\<close>, \<open>sid\<close>, \<open>pid\<close>, \<open>tid\<close>,
  \<open>lid\<close>) and so is \<open>name\<close> (\<open>sname\<close>, \<open>tname\<close>), because a record field is a
  global constant. A nullable column is an \<open>option\<close>. The role is the string that the
  column stores. Of the timestamps only \<open>Post.created_at\<close> is kept (an integer clock
  value), since the post listing is ordered by it; the other timestamps are written by the
  storage engine's defaults and read by no handler.
\<close>

record user =
  uid :: int
  username :: string
  email :: string
  password :: string
  role :: string

record status_row =
  sid :: int
  sname :: string
  description :: string

record post =
  pid :: int
  title :: string
  content :: string
  author_id :: int
  status_id :: "int option"
  created_at :: int

record tag =
  tid :: int
  tname :: string

record like =
  lid :: int
  post_id :: int
  user_id :: int

text \<open>The association table \<open>post_tags\<close> has the two columns \<open>(post_id, tag_id)\<close>.\<close>

record db =
  users :: "user list"
  status :: "status_row list"
  posts :: "post list"
  tags :: "tag list"
  post_tags :: "(int \<times> int) list"
  likes :: "like list"

subsection \<open>Errors\<close>

text \<open>
  \<open>HTTPException status_code detail\<close> is the exception the handlers raise.
  \<open>RequestValidationError\<close> is what the framework raises (answered with status 422) when a
  declared parameter constraint fails, and \<open>ZeroDivisionError\<close> is Python's.
\<close>

datatype error =
    HTTPException int string
  | RequestValidationError
  | ZeroDivisionError

fun failure_code :: "error + 'a \<Rightarrow> int option" where
  "failure_code (Inl (HTTPException status_code detail)) = Some status_code"
| "failure_code (Inl RequestValidationError) = Some 422"
| "failure_code (Inl ZeroDivisionError) = Some 500"
| "failure_code (Inr v) = None"

subsection \<open>Query helpers\<close>

text \<open>\<open>Query.first()\<close>: the first row of the result, or \<open>None\<close>.\<close>

definition first :: "'a list \<Rightarrow> 'a option" where
  "first rows = (case rows of [] \<Rightarrow> None | r # _ \<Rightarrow> Some r)"

section \<open>Reading one post (main.py, get_post)\<close>

definition get_post :: "db \<Rightarrow> int \<Rightarrow> user option \<Rightarrow> error + post" where
  "get_post d post_id' current_user =
     (case first (filter (\<lambda>p. pid p = post_id') (posts d)) of
        None \<Rightarrow> Inl (HTTPException 404 ''Post not found'')
      | Some post \<Rightarrow>
          if status_id post \<noteq> Some 2 then
            (case current_user of
               None \<Rightarrow> Inl (HTTPException 404 ''Post not found'')
             | Some u \<Rightarrow>
                 if role u \<noteq> ''admin'' \<and> uid u \<noteq> author_id post
                 then Inl (HTTPException 404 ''Post not found'')
                 else Inr post)
          else Inr post)"

text \<open>
  The read rule in the words of the specification (\<open>canView\<close>); a post is published when
  its \<open>status_id\<close> is 2, the id that the code compares with throughout.
\<close>

definition published :: "post \<Rightarrow> bool" where
  "published p = (status_id p = Some 2)"

definition canView :: "user option \<Rightarrow> post \<Rightarrow> bool" where
  "canView requester p =
     (case requester of
        None \<Rightarrow> published p
      | Some u \<Rightarrow> if role u = ''admin'' then True else (author_id p = uid u \<or> published p))"

section \<open>Listing posts (database.py, paginate; main.py, list_posts)\<close>

text \<open>
  A declared query parameter \<open>Query(default, gt=0, le=...)\<close>: an omitted parameter takes the
  default, and a value outside the declared bounds is rejected by the framework before the
  handler runs. \<open>page\<close> is declared \<open>Query(1, gt=0)\<close> and \<open>limit\<close> is declared
  \<open>Query(10, gt=0, le=100)\<close> in every paginated route.
\<close>

definition page_param :: "int option \<Rightarrow> error + int" where
  "page_param v =
     (let page = (case v of None \<Rightarrow> 1 | Some n \<Rightarrow> n)
      in if page > 0 then Inr page else Inl RequestValidationError)"

definition limit_param :: "int option \<Rightarrow> error + int" where
  "limit_param v =
     (let limit = (case v of None \<Rightarrow> 10 | Some n \<Rightarrow> n)
      in if limit > 0 \<and> limit \<le> 100 then Inr limit else Inl RequestValidationError)"

text \<open>
  \<open>Query.offset(n)\<close> and \<open>Query.limit(n)\<close> on a list of rows. The storage engine
  (SQLite) reads a negative offset as zero and a negative limit as no limit.
\<close>

definition offset_rows :: "int \<Rightarrow> 'a list \<Rightarrow> 'a list" where
  "offset_rows n rows = drop (nat n) rows"

definition limit_rows :: "int \<Rightarrow> 'a list \<Rightarrow> 'a list" where
  "limit_rows n rows = (if n < 0 then rows else take (nat n) rows)"

record 'a paginated =
  items :: "'a list"
  total :: int
  pages :: int
  current_page :: int

definition paginate :: "'a list \<Rightarrow> int \<Rightarrow> int \<Rightarrow> error + 'a paginated" where
  "paginate query page limit =
     (let total' = int (length query);
          items' = limit_rows limit (offset_rows ((page - 1) * limit) query)
      in if limit = 0 then Inl ZeroDivisionError
         else Inr \<lparr>items = items', total = total',
                   pages = (total' + limit - 1) div limit, current_page = page\<rparr>)"

text \<open>
  \<open>column.ilike(pattern)\<close>: the SQL \<open>LIKE\<close> match of the lower-cased column against the
  lower-cased pattern, where \<open>%\<close> matches any run of characters and \<open>_\<close> any single one.
  Case folding is that of the ASCII letters.
\<close>

definition lower_char :: "char \<Rightarrow> char" where
  "lower_char c =
     (if 65 \<le> (of_char c :: nat) \<and> (of_char c :: nat) \<le> 90
      then char_of ((of_char c :: nat) + 32) else c)"

fun like_match :: "string \<Rightarrow> string \<Rightarrow> bool" where
  "like_match [] s = (s = [])"
| "like_match (p # ps) [] = (p = CHR ''%'' \<and> like_match ps [])"
| "like_match (p # ps) (c # cs) =
     (if p = CHR ''%'' then like_match ps (c # cs) \<or> like_match (p # ps) cs
      else (p = CHR ''_'' \<or> p = c) \<and> like_match ps cs)"

definition ilike :: "string \<Rightarrow> string \<Rightarrow> bool" where
  "ilike column pattern = like_match (map lower_char pattern) (map lower_char column)"

text \<open>\<open>order_by(Post.created_at.desc())\<close>; rows with equal keys keep their storage order.\<close>

definition order_by_created_at_desc :: "post list \<Rightarrow> post list" where
  "order_by_created_at_desc query = sort_key (\<lambda>p. - created_at p) query"

definition list_posts ::
  "db \<Rightarrow> int option \<Rightarrow> int option \<Rightarrow> string option \<Rightarrow> user option
     \<Rightarrow> error + post paginated" where
  "list_posts d page limit search current_user =
     (case page_param page of
        Inl e \<Rightarrow> Inl e
      | Inr page' \<Rightarrow>
     (case limit_param limit of
        Inl e \<Rightarrow> Inl e
      | Inr limit' \<Rightarrow>
          let query = posts d;
              query = (case current_user of
                         None \<Rightarrow> filter (\<lambda>p. status_id p = Some 2) query
                       | Some u \<Rightarrow>
                           if role u = ''admin'' then query
                           else filter (\<lambda>p. author_id p = uid u \<or> status_id p = Some 2) query);
              query = (case search of
                         None \<Rightarrow> query
                       | Some s \<Rightarrow>
                           if s = [] then query
                           else filter (\<lambda>p. ilike (title p) (''%'' @ s @ ''%'')
                                           \<or> ilike (content p) (''%'' @ s @ ''%'')) query)
          in paginate (order_by_created_at_desc query) page' limit'))"

section \<open>A post with its like status (main.py, get_post_with_like_status)\<close>

record post_with_like_status =
  the_post :: post
  is_liked :: bool
  likes_count :: int

definition get_post_with_like_status ::
  "db \<Rightarrow> int \<Rightarrow> user option \<Rightarrow> error + post_with_like_status" where
  "get_post_with_like_status d post_id' current_user =
     (case first (filter (\<lambda>p. pid p = post_id') (posts d)) of
        None \<Rightarrow> Inl (HTTPException 404 ''Post not found'')
      | Some post \<Rightarrow>
          let is_liked' =
                (case current_user of
                   None \<Rightarrow> False
                 | Some u \<Rightarrow>
                     first (filter (\<lambda>l. post_id l = post_id' \<and> user_id l = uid u) (likes d))
                       \<noteq> None);
              likes_count' = int (length (filter (\<lambda>l. post_id l = post_id') (likes d)))
          in Inr \<lparr>the_post = post, is_liked = is_liked', likes_count = likes_count'\<rparr>)"

section \<open>Posts by tag (main.py, filter_published_posts and get_posts_by_tag)\<close>

definition filter_published_posts :: "post list \<Rightarrow> user option \<Rightarrow> post list" where
  "filter_published_posts query current_user =
     (case current_user of
        None \<Rightarrow> filter (\<lambda>p. status_id p = Some 2) query
      | Some u \<Rightarrow>
          if role u = ''admin'' then query
          else filter (\<lambda>p. author_id p = uid u \<or> status_id p = Some 2) query)"




section \<open>Mutating handlers (main.py)\<close>

text \<open>
  A mutating handler takes the state and returns its answer together with the new state.
  The primary key of an inserted row is one more than the largest key of the table.
  Each handler runs its writes in a \<open>try\<close> block whose \<open>except\<close> branch rolls the session
  back and answers with status 500: the flag \<open>storage_ok\<close> is \<open>False\<close> when a write
  (\<open>flush\<close> or \<open>commit\<close>) raises, and then the state is the one before the request.
\<close>

definition next_id :: "int list \<Rightarrow> int" where
  "next_id ids = fold max ids 0 + 1"

subsection \<open>like_post and unlike_post\<close>

definition like_post :: "bool \<Rightarrow> db \<Rightarrow> int \<Rightarrow> user \<Rightarrow> (error + string) \<times> db" where
  "like_post storage_ok d post_id' current_user =
     (case first (filter (\<lambda>p. pid p = post_id') (posts d)) of
        None \<Rightarrow> (Inl (HTTPException 404 ''Post not found''), d)
      | Some post \<Rightarrow>
          (case first (filter (\<lambda>l. post_id l = post_id' \<and> user_id l = uid current_user)
                        (likes d)) of
             Some existing_like \<Rightarrow> (Inl (HTTPException 409 ''Post already liked''), d)
           | None \<Rightarrow>
               if storage_ok then
                 let like' = \<lparr>lid = next_id (map lid (likes d)), post_id = post_id',
                              user_id = uid current_user\<rparr>
                 in (Inr ''Post liked successfully'', d\<lparr>likes := likes d @ [like']\<rparr>)
               else (Inl (HTTPException 500 ''Could not like post''), d)))"

definition unlike_post :: "bool \<Rightarrow> db \<Rightarrow> int \<Rightarrow> user \<Rightarrow> (error + string) \<times> db" where
  "unlike_post storage_ok d post_id' current_user =
     (case first (filter (\<lambda>l. post_id l = post_id' \<and> user_id l = uid current_user)
                   (likes d)) of
        None \<Rightarrow> (Inl (HTTPException 404 ''Post not liked''), d)
      | Some like' \<Rightarrow>
          if storage_ok then
            (Inr ''Post unliked successfully'',
             d\<lparr>likes := filter (\<lambda>l. lid l \<noteq> lid like') (likes d)\<rparr>)
          else (Inl (HTTPException 500 ''Could not unlike post''), d))"

subsection \<open>create_post\<close>




text \<open>
  What the loop establishes for one tag name: the row \<open>r\<close> of \<open>post_tags\<close> links the
  post \<open>p\<close> to a tag of the table \<open>tgs\<close> whose name is \<open>n\<close>.
\<close>

definition attaches :: "tag list \<Rightarrow> int \<Rightarrow> int \<times> int \<Rightarrow> string \<Rightarrow> bool" where
  "attaches tgs p r n = (fst r = p \<and> list_ex (\<lambda>t. tid t = snd r \<and> tname t = n) tgs)"

subsection \<open>update_post\<close>





subsection \<open>register_user\<close>







section \<open>An example state\<close>

definition alice :: user where
  "alice = \<lparr>uid = 1, username = ''alice'', email = ''alice@example.com'',
            password = ''h1'', role = ''admin''\<rparr>"

definition bob :: user where
  "bob = \<lparr>uid = 2, username = ''bob'', email = ''bob@example.com'',
          password = ''h2'', role = ''author''\<rparr>"

definition carol :: user where
  "carol = \<lparr>uid = 3, username = ''carol'', email = ''carol@example.com'',
            password = ''h3'', role = ''reader''\<rparr>"

definition dave :: user where
  "dave = \<lparr>uid = 4, username = ''dave'', email = ''dave@example.com'',
           password = ''h4'', role = ''author''\<rparr>"

definition draft_post :: post where
  "draft_post = \<lparr>pid = 1, title = ''Secret plan'', content = ''work in progress'',
                 author_id = 2, status_id = Some 1, created_at = 10\<rparr>"

definition public_post :: post where
  "public_post = \<lparr>pid = 2, title = ''Hello'', content = ''a secret recipe'',
                  author_id = 2, status_id = Some 2, created_at = 20\<rparr>"

definition db0 :: db where
  "db0 = \<lparr>users = [alice, bob, carol, dave],
          status = [\<lparr>sid = 1, sname = ''draft'', description = ''Draft post''\<rparr>,
                    \<lparr>sid = 2, sname = ''published'', description = ''Published post''\<rparr>],
          posts = [draft_post, public_post],
          tags = [\<lparr>tid = 1, tname = ''news''\<rparr>],
          post_tags = [(1, 1), (2, 1)],
          likes = [\<lparr>lid = 1, post_id = 2, user_id = 3\<rparr>]\<rparr>"

section \<open>Lemmas on the query helpers\<close>

lemma first_filter_None: "first (filter P xs) = None \<longleftrightarrow> (\<forall>x\<in>set xs. \<not> P x)"
  by (induction xs) (auto simp: first_def)

lemma first_filter_Some: "first (filter P xs) = Some x \<Longrightarrow> x \<in> set xs \<and> P x"
  by (induction xs) (auto simp: first_def split: if_splits)

lemma first_filter_key:
  "distinct (map f xs) \<Longrightarrow> x \<in> set xs \<Longrightarrow> first (filter (\<lambda>y. f y = f x) xs) = Some x"
proof (induction xs)
  case Nil
  then show ?case by simp
next
  case (Cons a xs)
  show ?case
  proof (cases "a = x")
    case True
    then show ?thesis by (simp add: first_def)
  next
    case False
    with Cons.prems have "x \<in> set xs" and "f a \<noteq> f x" by auto
    with Cons show ?thesis by simp
  qed
qed

section \<open>Visibility of a single post\<close>

text \<open>
  C1. For a post \<open>P\<close> of the table (primary keys being unique) and any requester,
  \<open>get_post\<close> on the id of \<open>P\<close> returns \<open>P\<close> exactly when \<open>canView\<close> holds: an anonymous
  requester sees it iff it is published, an admin always, any other user iff the user is
  the author or the post is published. When the post is not visible the failure is the
  404 "Post not found", the same as for an absent post, and so never a 403.
  \<open>filter_published_posts\<close> keeps the rows of a query that satisfy the same rule.
\<close>

theorem get_post_visibility:
  assumes "P \<in> set (posts d)" and "distinct (map pid (posts d))"
  shows "get_post d (pid P) requester =
           (if canView requester P then Inr P else Inl (HTTPException 404 ''Post not found''))
         \<and> failure_code (get_post d (pid P) requester) \<noteq> Some 403
         \<and> filter_published_posts query requester = filter (canView requester) query"
proof -
  have flt: "filter_published_posts query requester = filter (canView requester) query"
    by (cases requester)
       (auto simp: filter_published_posts_def canView_def published_def intro!: filter_cong)
  have found: "first (filter (\<lambda>p. pid p = pid P) (posts d)) = Some P"
    using assms by (simp add: first_filter_key)
  have eq: "get_post d (pid P) requester =
           (if canView requester P then Inr P else Inl (HTTPException 404 ''Post not found''))"
    by (cases requester) (auto simp: get_post_def found canView_def published_def)
  show ?thesis unfolding eq using flt by simp
qed

theorem get_post_visibility_witness:
  "get_post db0 1 None = Inl (HTTPException 404 ''Post not found'')
   \<and> get_post db0 1 (Some carol) = Inl (HTTPException 404 ''Post not found'')
   \<and> get_post db0 1 (Some bob) = Inr draft_post
   \<and> get_post db0 1 (Some alice) = Inr draft_post
   \<and> get_post db0 2 None = Inr public_post"
proof -
  have m1: "draft_post \<in> set (posts db0)" and m2: "public_post \<in> set (posts db0)"
    by (simp_all add: db0_def)
  have dist: "distinct (map pid (posts db0))"
    by (simp add: db0_def draft_post_def public_post_def)
  have p1: "pid draft_post = 1" and p2: "pid public_post = 2"
    by (simp_all add: draft_post_def public_post_def)
  show ?thesis
    using get_post_visibility [OF m1 dist, where requester=None and query="[]"]
      get_post_visibility [OF m1 dist, where requester="Some carol" and query="[]"]
      get_post_visibility [OF m1 dist, where requester="Some bob" and query="[]"]
      get_post_visibility [OF m1 dist, where requester="Some alice" and query="[]"]
      get_post_visibility [OF m2 dist, where requester=None and query="[]"]
    by (simp add: p1 p2 canView_def published_def draft_post_def public_post_def
        alice_def bob_def carol_def)
qed

section \<open>Pagination arithmetic and row windows\<close>


lemma set_limit_offset: "set (limit_rows n (offset_rows m xs)) \<subseteq> set xs"
  by (auto simp: limit_rows_def offset_rows_def dest: in_set_takeD in_set_dropD)



lemma paginate_items: "paginate q page limit = Inr r \<Longrightarrow> set (items r) \<subseteq> set q"
  using set_limit_offset[of limit "(page - 1) * limit" q]
  by (auto simp: paginate_def Let_def split: if_splits)

section \<open>Anonymous listings hold published posts only\<close>

lemma list_posts_anonymous_subset:
  assumes "list_posts d page limit search None = Inr r"
  shows "set (items r) \<subseteq> {x \<in> set (posts d). status_id x = Some 2}"
proof -
  from assms obtain q pg lm where
    pag: "paginate (order_by_created_at_desc q) pg lm = Inr r"
    and q: "set q \<subseteq> {x \<in> set (posts d). status_id x = Some 2}"
  proof (cases search)
    case None
    with assms that[of "filter (\<lambda>p. status_id p = Some 2) (posts d)"] show ?thesis
      by (auto simp: list_posts_def Let_def split: sum.splits)
  next
    case (Some s)
    show ?thesis
    proof (cases "s = []")
      case True
      with Some assms that[of "filter (\<lambda>p. status_id p = Some 2) (posts d)"] show ?thesis
        by (auto simp: list_posts_def Let_def split: sum.splits)
    next
      case False
      with Some assms
        that[of "filter (\<lambda>p. ilike (title p) (''%'' @ s @ ''%'') \<or> ilike (content p) (''%'' @ s @ ''%''))
                  (filter (\<lambda>p. status_id p = Some 2) (posts d))"]
      show ?thesis
        by (auto simp: list_posts_def Let_def split: sum.splits)
    qed
  qed
  from paginate_items[OF pag] q show ?thesis
    by (auto simp: order_by_created_at_desc_def)
qed

text \<open>
  C2. For an anonymous \<open>list_posts\<close> request with any page, limit and search string,
  every post of the returned page is published: the search filter is applied to the rows
  that the visibility filter has kept, so a draft whose title or content matches the search
  term is not returned.
\<close>

theorem list_posts_anonymous_published:
  assumes "list_posts d page limit search None = Inr r" and "p \<in> set (items r)"
  shows "published p"
  using list_posts_anonymous_subset[OF assms(1)] assms(2) by (auto simp: published_def)

text \<open>Unfolding sets for evaluating the example state.\<close>

lemmas ex_defs = db0_def alice_def bob_def carol_def dave_def draft_post_def public_post_def
lemmas list_defs = list_posts_def page_param_def limit_param_def ilike_def lower_char_def
  paginate_def order_by_created_at_desc_def offset_rows_def limit_rows_def

theorem list_posts_anonymous_published_witness:
  "list_posts db0 None None (Some ''secret'') None =
     Inr \<lparr>items = [public_post], total = 1, pages = 1, current_page = 1\<rparr>
   \<and> ilike (title draft_post) ''%secret%'' \<and> published public_post"
proof -
  have e: "list_posts db0 None None (Some ''secret'') None =
     Inr \<lparr>items = [public_post], total = 1, pages = 1, current_page = 1\<rparr>"
    by (simp add: list_defs ex_defs)
  have m: "public_post \<in> set (items \<lparr>items = [public_post], total = 1, pages = 1, current_page = 1\<rparr>)"
    by simp
  have i: "ilike (title draft_post) ''%secret%''"
    by code_simp
  from list_posts_anonymous_published[OF e m] e i show ?thesis by simp
qed

section \<open>The like-status read has no visibility check\<close>

text \<open>
  C3. For a post \<open>P\<close> of the table (primary keys being unique) and any requester, the
  anonymous one included, \<open>get_post_with_like_status\<close> returns \<open>P\<close> with the number of
  its likes and the flag telling whether the requester has liked it. Neither the status of
  \<open>P\<close> nor its author is consulted, so a draft is returned to whoever supplies its id.
\<close>

theorem get_post_with_like_status_unguarded:
  assumes "P \<in> set (posts d)" and "distinct (map pid (posts d))"
  shows "get_post_with_like_status d (pid P) requester =
           Inr \<lparr>the_post = P,
                is_liked = (case requester of
                              None \<Rightarrow> False
                            | Some u \<Rightarrow> \<exists>l\<in>set (likes d). post_id l = pid P \<and> user_id l = uid u),
                likes_count = int (length (filter (\<lambda>l. post_id l = pid P) (likes d)))\<rparr>"
proof -
  have found: "first (filter (\<lambda>p. pid p = pid P) (posts d)) = Some P"
    using assms by (simp add: first_filter_key)
  show ?thesis
    by (cases requester)
       (auto simp: get_post_with_like_status_def found Let_def first_filter_None)
qed

theorem get_post_with_like_status_unguarded_witness:
  "get_post_with_like_status db0 1 None =
     Inr \<lparr>the_post = draft_post, is_liked = False, likes_count = 0\<rparr>
   \<and> get_post_with_like_status db0 1 (Some carol) =
     Inr \<lparr>the_post = draft_post, is_liked = False, likes_count = 0\<rparr>
   \<and> get_post_with_like_status db0 2 (Some carol) =
     Inr \<lparr>the_post = public_post, is_liked = True, likes_count = 1\<rparr>
   \<and> get_post db0 1 None = Inl (HTTPException 404 ''Post not found'')"
proof -
  have m1: "draft_post \<in> set (posts db0)" and m2: "public_post \<in> set (posts db0)"
    by (simp_all add: db0_def)
  have dist: "distinct (map pid (posts db0))"
    by (simp add: db0_def draft_post_def public_post_def)
  have p1: "pid draft_post = 1" and p2: "pid public_post = 2"
    by (simp_all add: draft_post_def public_post_def)
  have l: "likes db0 = [\<lparr>lid = 1, post_id = 2, user_id = 3\<rparr>]" "uid carol = 3"
    by (simp_all add: db0_def carol_def)
  have g: "get_post db0 1 None = Inl (HTTPException 404 ''Post not found'')"
    by (simp add: get_post_def first_def ex_defs)
  show ?thesis
    using get_post_with_like_status_unguarded [OF m1 dist, of None]
      get_post_with_like_status_unguarded [OF m1 dist, of "Some carol"]
      get_post_with_like_status_unguarded [OF m2 dist, of "Some carol"] g
    by (simp add: p1 p2 l)
qed

section \<open>Paginated listings\<close>



lemma param_defaults: "page_param None = page_param (Some 1)" "limit_param None = limit_param (Some 10)"
  by (simp_all add: page_param_def limit_param_def)






section \<open>Posts by tag: the status branch\<close>












section \<open>Likes\<close>

lemma fold_max_ge: "(a::int) \<le> fold max ids a \<and> (\<forall>x\<in>set ids. x \<le> fold max ids a)"
proof (induction ids arbitrary: a)
  case Nil
  then show ?case by simp
next
  case (Cons i ids)
  from Cons[of "max i a"] show ?case by auto
qed

lemma next_id_fresh: "x \<in> set ids \<Longrightarrow> x < next_id ids"
  using fold_max_ge[of 0 ids] by (auto simp: next_id_def)

lemma next_id_notin: "next_id (map f xs) \<notin> f ` set xs"
  using next_id_fresh[of "next_id (map f xs)" "map f xs"] by auto

lemma filter_fresh_key:
  "lid l \<notin> lid ` set ls \<Longrightarrow> filter (\<lambda>x. lid x \<noteq> lid l) (ls @ [l]) = ls"
  by (induction ls) auto

lemma post_found:
  "i \<in> pid ` set (posts d) \<Longrightarrow> \<exists>p. first (filter (\<lambda>p. pid p = i) (posts d)) = Some p"
  using first_filter_None[of "\<lambda>p. pid p = i" "posts d"]
  by (cases "first (filter (\<lambda>p. pid p = i) (posts d))") auto

lemma filter_key_remove1:
  "distinct (map f xs) \<Longrightarrow> x \<in> set xs \<Longrightarrow> filter (\<lambda>y. f y \<noteq> f x) xs = remove1 x xs"
proof (induction xs)
  case Nil
  then show ?case by simp
next
  case (Cons a xs)
  show ?case
  proof (cases "a = x")
    case True
    with Cons.prems have "\<forall>y\<in>set xs. f y \<noteq> f x" by (auto simp: image_iff)
    then have "filter (\<lambda>y. f y \<noteq> f x) xs = xs" by (simp add: filter_id_conv)
    with True show ?thesis by simp
  next
    case False
    with Cons.prems have "x \<in> set xs" and "f a \<noteq> f x" by auto
    with Cons False show ?thesis by simp
  qed
qed

lemma first_Nil: "first [] = None"
  by (simp add: first_def)

lemma first_Cons: "first (x # xs) = Some x"
  by (simp add: first_def)

lemma first_filter_cases:
  "(first (filter P xs) = None \<and> \<not> (\<exists>x\<in>set xs. P x))
   \<or> (\<exists>x. first (filter P xs) = Some x \<and> x \<in> set xs \<and> P x)"
proof (cases "first (filter P xs)")
  case None
  then show ?thesis by (simp add: first_filter_None first_Nil)
next
  case (Some x)
  with first_filter_Some[OF Some] show ?thesis by simp
qed

lemma like_post_conflict_iff:
  assumes "i \<in> pid ` set (posts d)"
  shows "fst (like_post ok d i u) = Inl (HTTPException 409 ''Post already liked'')
           \<longleftrightarrow> (\<exists>l\<in>set (likes d). post_id l = i \<and> user_id l = uid u)"
proof -
  from post_found[OF assms] obtain p where
    p: "first (filter (\<lambda>p. pid p = i) (posts d)) = Some p" by blast
  from first_filter_cases[of "\<lambda>l. post_id l = i \<and> user_id l = uid u" "likes d"]
  show ?thesis
  proof
    assume "first (filter (\<lambda>l. post_id l = i \<and> user_id l = uid u) (likes d)) = None
      \<and> \<not> (\<exists>x\<in>set (likes d). post_id x = i \<and> user_id x = uid u)"
    then show ?thesis by (simp add: like_post_def p Let_def first_Nil)
  next
    assume "\<exists>x. first (filter (\<lambda>l. post_id l = i \<and> user_id l = uid u) (likes d)) = Some x
      \<and> x \<in> set (likes d) \<and> (post_id x = i \<and> user_id x = uid u)"
    then obtain x where
      "first (filter (\<lambda>l. post_id l = i \<and> user_id l = uid u) (likes d)) = Some x"
      "x \<in> set (likes d)" "post_id x = i" "user_id x = uid u" by blast
    then show ?thesis by (auto simp: like_post_def p)
  qed
qed

lemma like_post_creates:
  assumes "i \<in> pid ` set (posts d)"
    and "\<not> (\<exists>l\<in>set (likes d). post_id l = i \<and> user_id l = uid u)"
  shows "like_post True d i u =
           (Inr ''Post liked successfully'',
            d\<lparr>likes := likes d @ [\<lparr>lid = next_id (map lid (likes d)), post_id = i,
                                    user_id = uid u\<rparr>]\<rparr>)"
proof -
  from post_found[OF assms(1)] obtain p where
    p: "first (filter (\<lambda>p. pid p = i) (posts d)) = Some p" by blast
  from assms(2) have n: "first (filter (\<lambda>l. post_id l = i \<and> user_id l = uid u) (likes d)) = None"
    unfolding first_filter_None by blast
  show ?thesis using assms(2) by (simp add: like_post_def p n Let_def first_Nil)
qed

lemma unlike_post_notfound_iff:
  "fst (unlike_post ok d i u) = Inl (HTTPException 404 ''Post not liked'')
     \<longleftrightarrow> \<not> (\<exists>l\<in>set (likes d). post_id l = i \<and> user_id l = uid u)"
proof -
  from first_filter_cases[of "\<lambda>l. post_id l = i \<and> user_id l = uid u" "likes d"]
  show ?thesis
  proof
    assume "first (filter (\<lambda>l. post_id l = i \<and> user_id l = uid u) (likes d)) = None
      \<and> \<not> (\<exists>x\<in>set (likes d). post_id x = i \<and> user_id x = uid u)"
    then show ?thesis by (simp add: unlike_post_def first_Nil)
  next
    assume "\<exists>x. first (filter (\<lambda>l. post_id l = i \<and> user_id l = uid u) (likes d)) = Some x
      \<and> x \<in> set (likes d) \<and> (post_id x = i \<and> user_id x = uid u)"
    then obtain x where
      "first (filter (\<lambda>l. post_id l = i \<and> user_id l = uid u) (likes d)) = Some x"
      "x \<in> set (likes d)" "post_id x = i" "user_id x = uid u" by blast
    then show ?thesis by (auto simp: unlike_post_def)
  qed
qed

lemma unlike_post_removes:
  assumes "\<exists>l\<in>set (likes d). post_id l = i \<and> user_id l = uid u"
    and "distinct (map lid (likes d))"
  shows "\<exists>l\<in>set (likes d). post_id l = i \<and> user_id l = uid u
           \<and> unlike_post True d i u =
               (Inr ''Post unliked successfully'', d\<lparr>likes := remove1 l (likes d)\<rparr>)"
proof -
  from assms(1) obtain l where
    l: "first (filter (\<lambda>l. post_id l = i \<and> user_id l = uid u) (likes d)) = Some l"
    using first_filter_None[of "\<lambda>l. post_id l = i \<and> user_id l = uid u" "likes d"]
    by (cases "first (filter (\<lambda>l. post_id l = i \<and> user_id l = uid u) (likes d))") auto
  from first_filter_Some[OF l] have m: "l \<in> set (likes d)" "post_id l = i" "user_id l = uid u"
    by auto
  have "unlike_post True d i u =
          (Inr ''Post unliked successfully'', d\<lparr>likes := remove1 l (likes d)\<rparr>)"
    by (simp add: unlike_post_def l filter_key_remove1[OF assms(2) m(1)])
  with m show ?thesis by blast
qed

lemma like_then_unlike:
  assumes "\<not> (\<exists>l\<in>set (likes d). post_id l = i \<and> user_id l = uid u)"
  shows "unlike_post True
           (d\<lparr>likes := likes d @ [\<lparr>lid = next_id (map lid (likes d)), post_id = i,
                                   user_id = uid u\<rparr>]\<rparr>) i u
         = (Inr ''Post unliked successfully'', d)"
proof -
  let ?l = "\<lparr>lid = next_id (map lid (likes d)), post_id = i, user_id = uid u\<rparr>"
  from assms have e: "filter (\<lambda>l. post_id l = i \<and> user_id l = uid u) (likes d) = []"
    by (auto simp: filter_empty_conv)
  have "lid ?l \<notin> lid ` set (likes d)" using next_id_notin[of lid "likes d"] by simp
  from filter_fresh_key[OF this] show ?thesis
    by (simp add: unlike_post_def e first_Cons)
qed

text \<open>
  C6. On an existing post \<open>i\<close> and for a user \<open>u\<close>: \<open>like_post\<close> fails with the 409
  "Post already liked" exactly when a like of \<open>(i, u)\<close> is stored. When none is stored
  and the store accepts the write, it appends one like of \<open>(i, u)\<close> under a fresh key,
  after which exactly one like of the pair is stored, and \<open>unlike_post\<close> on that state
  gives back the state before the like (so the next \<open>like_post\<close> succeeds again).
  \<open>unlike_post\<close> fails with the 404 "Post not liked" exactly when no like of the pair is
  stored; otherwise, keys being unique and the store accepting the write, it removes one
  like of the pair and nothing else.
\<close>

theorem like_unlike_protocol:
  assumes "i \<in> pid ` set (posts d)"
  shows "(fst (like_post ok d i u) = Inl (HTTPException 409 ''Post already liked'')
            \<longleftrightarrow> (\<exists>l\<in>set (likes d). post_id l = i \<and> user_id l = uid u))
       \<and> (\<not> (\<exists>l\<in>set (likes d). post_id l = i \<and> user_id l = uid u) \<longrightarrow>
            (\<exists>l. like_post True d i u
                    = (Inr ''Post liked successfully'', d\<lparr>likes := likes d @ [l]\<rparr>)
               \<and> post_id l = i \<and> user_id l = uid u \<and> lid l \<notin> lid ` set (likes d)
               \<and> length (filter (\<lambda>l. post_id l = i \<and> user_id l = uid u) (likes d @ [l])) = 1
               \<and> unlike_post True (d\<lparr>likes := likes d @ [l]\<rparr>) i u
                    = (Inr ''Post unliked successfully'', d)))
       \<and> (fst (unlike_post ok d i u) = Inl (HTTPException 404 ''Post not liked'')
            \<longleftrightarrow> \<not> (\<exists>l\<in>set (likes d). post_id l = i \<and> user_id l = uid u))
       \<and> ((\<exists>l\<in>set (likes d). post_id l = i \<and> user_id l = uid u)
            \<and> distinct (map lid (likes d)) \<longrightarrow>
            (\<exists>l\<in>set (likes d). post_id l = i \<and> user_id l = uid u
               \<and> unlike_post True d i u
                    = (Inr ''Post unliked successfully'', d\<lparr>likes := remove1 l (likes d)\<rparr>)))"
proof (intro conjI impI)
  show "fst (like_post ok d i u) = Inl (HTTPException 409 ''Post already liked'')
            \<longleftrightarrow> (\<exists>l\<in>set (likes d). post_id l = i \<and> user_id l = uid u)"
    by (rule like_post_conflict_iff[OF assms])
next
  assume n: "\<not> (\<exists>l\<in>set (likes d). post_id l = i \<and> user_id l = uid u)"
  let ?l = "\<lparr>lid = next_id (map lid (likes d)), post_id = i, user_id = uid u\<rparr>"
  from n have e: "filter (\<lambda>l. post_id l = i \<and> user_id l = uid u) (likes d) = []"
    by (auto simp: filter_empty_conv)
  have "lid ?l \<notin> lid ` set (likes d)" using next_id_notin[of lid "likes d"] by simp
  with like_post_creates[OF assms n] like_then_unlike[OF n] e
  show "\<exists>l. like_post True d i u
                    = (Inr ''Post liked successfully'', d\<lparr>likes := likes d @ [l]\<rparr>)
               \<and> post_id l = i \<and> user_id l = uid u \<and> lid l \<notin> lid ` set (likes d)
               \<and> length (filter (\<lambda>l. post_id l = i \<and> user_id l = uid u) (likes d @ [l])) = 1
               \<and> unlike_post True (d\<lparr>likes := likes d @ [l]\<rparr>) i u
                    = (Inr ''Post unliked successfully'', d)"
    by (intro exI[of _ ?l]) simp
next
  show "fst (unlike_post ok d i u) = Inl (HTTPException 404 ''Post not liked'')
            \<longleftrightarrow> \<not> (\<exists>l\<in>set (likes d). post_id l = i \<and> user_id l = uid u)"
    by (rule unlike_post_notfound_iff)
next
  assume "(\<exists>l\<in>set (likes d). post_id l = i \<and> user_id l = uid u) \<and> distinct (map lid (likes d))"
  then show "\<exists>l\<in>set (likes d). post_id l = i \<and> user_id l = uid u
               \<and> unlike_post True d i u
                    = (Inr ''Post unliked successfully'', d\<lparr>likes := remove1 l (likes d)\<rparr>)"
    using unlike_post_removes by blast
qed

lemmas like_defs = like_post_def unlike_post_def first_def next_id_def

theorem like_unlike_protocol_witness:
  "like_post True db0 2 bob =
     (Inr ''Post liked successfully'',
      db0\<lparr>likes := likes db0 @ [\<lparr>lid = 2, post_id = 2, user_id = 2\<rparr>]\<rparr>)
   \<and> fst (like_post True (db0\<lparr>likes := likes db0 @ [\<lparr>lid = 2, post_id = 2, user_id = 2\<rparr>]\<rparr>) 2 bob)
       = Inl (HTTPException 409 ''Post already liked'')
   \<and> unlike_post True (db0\<lparr>likes := likes db0 @ [\<lparr>lid = 2, post_id = 2, user_id = 2\<rparr>]\<rparr>) 2 bob
       = (Inr ''Post unliked successfully'', db0)
   \<and> fst (unlike_post True db0 2 bob) = Inl (HTTPException 404 ''Post not liked'')
   \<and> fst (like_post True db0 2 carol) = Inl (HTTPException 409 ''Post already liked'')
   \<and> unlike_post True db0 2 carol = (Inr ''Post unliked successfully'', db0\<lparr>likes := []\<rparr>)"
proof -
  have h: "2 \<in> pid ` set (posts db0)" by (simp add: ex_defs)
  have n: "\<not> (\<exists>l\<in>set (likes db0). post_id l = 2 \<and> user_id l = uid bob)"
    and y: "\<exists>l\<in>set (likes db0). post_id l = 2 \<and> user_id l = uid carol"
    by (simp_all add: ex_defs)
  have e1: "like_post True db0 2 bob =
     (Inr ''Post liked successfully'',
      db0\<lparr>likes := likes db0 @ [\<lparr>lid = 2, post_id = 2, user_id = 2\<rparr>]\<rparr>)"
    by (simp add: like_defs ex_defs)
  have e2: "fst (like_post True (db0\<lparr>likes := likes db0 @ [\<lparr>lid = 2, post_id = 2, user_id = 2\<rparr>]\<rparr>) 2 bob)
       = Inl (HTTPException 409 ''Post already liked'')"
    by (simp add: like_defs ex_defs)
  have e3: "unlike_post True (db0\<lparr>likes := likes db0 @ [\<lparr>lid = 2, post_id = 2, user_id = 2\<rparr>]\<rparr>) 2 bob
       = (Inr ''Post unliked successfully'', db0)"
    by (simp add: like_defs ex_defs)
  have e4: "unlike_post True db0 2 carol = (Inr ''Post unliked successfully'', db0\<lparr>likes := []\<rparr>)"
    by (simp add: like_defs ex_defs)
  note t = like_unlike_protocol[OF h, of True]
  from t[of bob] n have "fst (unlike_post True db0 2 bob) = Inl (HTTPException 404 ''Post not liked'')"
    by blast
  moreover from t[of carol] y
  have "fst (like_post True db0 2 carol) = Inl (HTTPException 409 ''Post already liked'')"
    by blast
  ultimately show ?thesis using e1 e2 e3 e4 by simp
qed

section \<open>Creating a post\<close>

lemma attaches_mono: "set tgs \<subseteq> set tgs' \<Longrightarrow> attaches tgs p r n \<Longrightarrow> attaches tgs' p r n"
  by (auto simp: attaches_def list_ex_iff)







section \<open>Updating a post\<close>






section \<open>Registering a user name twice\<close>








end
